theory Spec2Isabelle
  imports Complex_Main
begin

section \<open>Python exceptions and values\<close>

text \<open>
  Every exception the two modules can raise is a constructor; a function that may raise
  returns \<open>error + 'a\<close>, with \<open>Inl\<close> for the exception. The spec's names map onto
  Python's as follows: \<open>UnsupportedGeometry\<close> is \<open>NotImplementedError\<close>,
  \<open>ShapeMismatch\<close> is \<open>ValueError\<close>, \<open>FieldNotFound\<close> is \<open>KeyError\<close>.
\<close>

datatype error =
    NotImplementedError
  | NameError string
  | AttributeError string
  | ValueError string
  | AssertionError
  | KeyError string
  | ZeroDivisionError
  | EOFError

type_synonym point = "real list"

text \<open>\<open>math.extrapolation\<close>: the source names only \<open>ZERO\<close>; every other policy is
  \<open>Extrapolation name\<close>.\<close>

datatype extrapolation = ZERO | Extrapolation string

text \<open>A \<open>Geometry\<close> is used through the positions of its elements only.\<close>

datatype geometry = Geometry (center: "point list")

text \<open>The \<open>values\<close> argument (\<open>Any\<close>): one broadcast scalar or one value per element.\<close>

datatype vals = Scalar real | PerElement "real list"

text \<open>A \<open>Box\<close> is used through its method \<open>global_to_local\<close> only, which the record
  carries.\<close>

record box =
  global_to_local :: "point \<Rightarrow> point"

text \<open>The argument of \<open>sample_at\<close>: a \<open>GridCell\<close> with its \<open>bounds\<close> and
  \<open>resolution\<close>, any other geometry, or a tensor of points.\<close>

datatype support =
    GridCell (bounds: box) (resolution: "nat list")
  | OtherGeometry geometry
  | PointTensor "point list"

fun is_GridCell :: "support \<Rightarrow> bool" where
  "is_GridCell (GridCell b r) = True"
| "is_GridCell (OtherGeometry g) = False"
| "is_GridCell (PointTensor ps) = False"

section \<open>SampledField and PointCloud\<close>

record PointCloud =
  elements :: geometry
  field_values :: vals
  extrapolation :: extrapolation
  add_overlapping :: bool

record CenteredGrid =
  grid_values :: "real list"
  grid_box :: box
  grid_extrapolation :: extrapolation

text \<open>
  Modelled from the spec: \<open>SampledField.__init__\<close> is not among the sources. It stores
  the geometry, the values and the extrapolation, and checks that there is one value per
  element or a single broadcast value; a violation is a \<open>ShapeMismatch\<close>.
\<close>

definition count_invariant :: "geometry \<Rightarrow> vals \<Rightarrow> bool" where
  "count_invariant g v =
     (case v of Scalar x \<Rightarrow> True
      | PerElement xs \<Rightarrow> length xs = length (center g) \<or> length xs = 1)"

definition SampledField_init ::
  "geometry \<Rightarrow> vals \<Rightarrow> extrapolation \<Rightarrow> error + (geometry \<times> vals \<times> extrapolation)" where
  "SampledField_init g v e =
     (if count_invariant g v then Inr (g, v, e)
      else Inl (ValueError ''values do not match elements''))"

definition PointCloud_init ::
  "geometry \<Rightarrow> vals \<Rightarrow> extrapolation \<Rightarrow> bool \<Rightarrow> error + PointCloud" where
  "PointCloud_init g v e a =
     (case SampledField_init g v e of
        Inl err \<Rightarrow> Inl err
      | Inr (g', v', e') \<Rightarrow>
          Inr \<lparr>elements = g', field_values = v', extrapolation = e', add_overlapping = a\<rparr>)"

text \<open>
  Modelled from the spec: the properties \<open>points\<close> and \<open>sample_points\<close> of
  \<open>SampledField\<close> are not among the sources; both are the positions of the elements.
\<close>

definition points :: "PointCloud \<Rightarrow> point list" where
  "points self = center (elements self)"

definition sample_points :: "PointCloud \<Rightarrow> point list" where
  "sample_points self = center (elements self)"

text \<open>No class in the sources gives a \<open>PointCloud\<close> an attribute \<open>mode\<close>: the constructor
  stores the flag as \<open>_add_overlapping\<close>.\<close>

definition mode :: "PointCloud \<Rightarrow> error + string" where
  "mode self = Inl (AttributeError ''mode'')"

subsection \<open>The numeric backend\<close>

text \<open>
  Modelled from the spec: \<open>math.round\<close> rounds to the nearest integer; the backend
  resolves a tie to the even neighbour. \<open>math.to_int\<close> drops the fraction towards zero.
  Coordinates are real numbers here, so no rounding error of the product is modelled.
\<close>

definition math_round :: "real \<Rightarrow> real" where
  "math_round x =
     (let f = \<lfloor>x\<rfloor>; d = x - of_int f in
      if d < 1/2 then of_int f
      else if 1/2 < d then of_int (f + 1)
      else if even f then of_int f else of_int (f + 1))"

definition to_int :: "real \<Rightarrow> int" where
  "to_int x = (if 0 \<le> x then \<lfloor>x\<rfloor> else \<lceil>x\<rceil>)"

text \<open>The product of a coordinate vector and the resolution broadcasts along the last
  axis: equal lengths multiply elementwise, a length of one is repeated, anything else
  is an error.\<close>

definition broadcast_mul :: "real list \<Rightarrow> nat list \<Rightarrow> error + real list" where
  "broadcast_mul xs rs =
     (if length xs = length rs then Inr (map2 (\<lambda>x r. x * real r) xs rs)
      else (case rs of [r] \<Rightarrow> Inr (map (\<lambda>x. x * real r) xs)
            | _ \<Rightarrow> (case xs of [x] \<Rightarrow> Inr (map (\<lambda>r. x * real r) rs)
                   | _ \<Rightarrow> Inl (ValueError ''operands could not be broadcast together''))))"

fun collect :: "(error + 'a) list \<Rightarrow> error + 'a list" where
  "collect [] = Inr []"
| "collect (Inl e # rs) = Inl e"
| "collect (Inr x # rs) = (case collect rs of Inl e \<Rightarrow> Inl e | Inr xs \<Rightarrow> Inr (x # xs))"

subsection \<open>\<open>_grid_scatter\<close> and \<open>sample_at\<close>\<close>

text \<open>Line 40: \<open>math.to_int(math.round(box.global_to_local(self.points) * resolution))\<close>.\<close>

definition closest_index :: "PointCloud \<Rightarrow> box \<Rightarrow> nat list \<Rightarrow> error + int list list" where
  "closest_index self bx res =
     collect (map (\<lambda>p. case broadcast_mul (global_to_local bx p) res of
                          Inl e \<Rightarrow> Inl e
                        | Inr ys \<Rightarrow> Inr (map (\<lambda>y. to_int (math_round y)) ys))
                  (points self))"

text \<open>
  The values a name of the function body can be bound to. Line 41 reads the names
  \<open>valid_indices\<close> and \<open>shape\<close>; Python looks a name up in the local scope, then in the
  module's, and raises \<open>NameError\<close> when neither binds it.
\<close>

datatype pyval =
    PyPointCloud PointCloud
  | PyBox box
  | PyShape "nat list"
  | PyIndices "int list list"
  | PyModuleObject

definition module_scope :: "(string \<times> pyval) list" where
  "module_scope =
     map (\<lambda>n. (n, PyModuleObject))
       [''Any'', ''math'', ''Geometry'', ''GridCell'', ''Box'', ''SampledField'',
        ''CenteredGrid'', ''PointCloud'', ''_distribute_points'']"

definition load_name :: "(string \<times> pyval) list \<Rightarrow> string \<Rightarrow> error + pyval" where
  "load_name scope n =
     (case map_of (scope @ module_scope) n of
        None \<Rightarrow> Inl (NameError n)
      | Some v \<Rightarrow> Inr v)"

text \<open>\<open>math.scatter(points, indices, values, shape, duplicates_handling)\<close> belongs to the
  backend and is a parameter of the model.\<close>

type_synonym scatter_fn =
  "point list \<Rightarrow> pyval \<Rightarrow> vals \<Rightarrow> pyval \<Rightarrow> string \<Rightarrow> error + real list"

definition grid_scatter ::
  "scatter_fn \<Rightarrow> PointCloud \<Rightarrow> box \<Rightarrow> nat list \<Rightarrow> error + CenteredGrid" where
  "grid_scatter scatter self bx res =
     (case closest_index self bx res of
        Inl e \<Rightarrow> Inl e
      | Inr ci \<Rightarrow>
          (let scope = [(''self'', PyPointCloud self), (''box'', PyBox bx),
                        (''resolution'', PyShape res), (''closest_index'', PyIndices ci)]
           in case load_name scope ''valid_indices'' of
                Inl e \<Rightarrow> Inl e
              | Inr valid_indices \<Rightarrow>
                  (case load_name scope ''shape'' of
                     Inl e \<Rightarrow> Inl e
                   | Inr shape \<Rightarrow>
                       (case mode self of
                          Inl e \<Rightarrow> Inl e
                        | Inr m \<Rightarrow>
                            (case scatter (sample_points self) valid_indices
                                          (field_values self) shape m of
                               Inl e \<Rightarrow> Inl e
                             | Inr scattered \<Rightarrow>
                                 Inr \<lparr>grid_values = scattered, grid_box = bx,
                                      grid_extrapolation = extrapolation self\<rparr>)))))"

definition sample_at ::
  "scatter_fn \<Rightarrow> PointCloud \<Rightarrow> support \<Rightarrow> error + CenteredGrid" where
  "sample_at scatter self pts =
     (if is_GridCell pts then grid_scatter scatter self (bounds pts) (resolution pts)
      else Inl NotImplementedError)"

definition mask :: "PointCloud \<Rightarrow> error + PointCloud" where
  "mask self = PointCloud_init (elements self) (Scalar 1) ZERO False"

section \<open>Particle seeding\<close>

text \<open>
  The \<open>density\<close> tensor has the shape (batch, spatial..., channels). The function reads the
  leading entry of its static shape, which is \<open>None\<close> for a dimension of unknown size, and
  the slices \<open>density[batch, ..., 0]\<close>, here \<open>channel0 d batch\<close>: the values of channel 0
  in row-major order over the spatial shape. The loop reads slices below the static batch
  size only, and slice 0 when that size is unknown.
\<close>

record density =
  staticshape0 :: "nat option"
  spatial :: "nat list"
  channel0 :: "nat \<Rightarrow> real list"

text \<open>The multi-index of a flat row-major position, and the flat position of a
  multi-index.\<close>

fun unravel :: "nat list \<Rightarrow> nat \<Rightarrow> nat list" where
  "unravel [] i = []"
| "unravel (n # ns) i = (i div prod_list ns) # unravel ns (i mod prod_list ns)"

fun ravel :: "nat list \<Rightarrow> nat list \<Rightarrow> nat" where
  "ravel (n # ns) (j # js) = j * prod_list ns + ravel ns js"
| "ravel ns js = 0"

text \<open>
  Modelled from the spec: \<open>math.where\<close> with a condition alone finds the indices of the
  active cells: one index vector per true entry, in row-major order. \<open>math.to_float\<close>
  converts them.
\<close>

definition math_where :: "nat list \<Rightarrow> real list \<Rightarrow> nat list list" where
  "math_where shp xs = map (unravel shp) (filter (\<lambda>i. 0 < xs ! i) [0..<length xs])"

definition to_float :: "nat list list \<Rightarrow> point list" where
  "to_float ixs = map (map real) ixs"

definition active_cells :: "density \<Rightarrow> nat \<Rightarrow> nat" where
  "active_cells d b = length (filter (\<lambda>v. 0 < v) (channel0 d b))"

text \<open>\<open>math.random_uniform(shape)\<close> draws from a source of random numbers; the source is
  a parameter \<open>rnd\<close>, read from position \<open>pos\<close> on.\<close>

definition random_uniform :: "(nat \<Rightarrow> real) \<Rightarrow> nat \<Rightarrow> nat \<Rightarrow> nat \<Rightarrow> point list" where
  "random_uniform rnd pos n r = map (\<lambda>i. map (\<lambda>j. rnd (pos + i * r + j)) [0..<r]) [0..<n]"

text \<open>The inner loop \<open>for _ in range(particles_per_cell)\<close>: the list \<open>temp\<close> and the
  position in the random source after it.\<close>

fun emit ::
  "string \<Rightarrow> nat \<Rightarrow> point list \<Rightarrow> nat \<Rightarrow> (nat \<Rightarrow> real) \<Rightarrow> nat \<Rightarrow> point list list \<times> nat" where
  "emit distribution 0 indices r rnd pos = ([], pos)"
| "emit distribution (Suc m) indices r rnd pos =
     (if distribution = ''center'' then
        (let (temp, pos') = emit distribution m indices r rnd pos
         in (map (map (\<lambda>x. x + 1/2)) indices # temp, pos'))
      else if distribution = ''uniform'' then
        (let u = random_uniform rnd pos (length indices) r;
             (temp, pos') = emit distribution m indices r rnd (pos + length indices * r)
         in (map2 (map2 (+)) indices u # temp, pos'))
      else emit distribution m indices r rnd pos)"

text \<open>\<open>math.concat\<close> along axis 0 and \<open>math.stack\<close>: both raise \<open>ValueError\<close> on an empty
  list, and \<open>stack\<close> also when the arrays differ in shape. All arrays stacked here have
  rows of the length of the spatial shape, so their shapes differ exactly when their
  numbers of rows do.\<close>

definition math_concat :: "point list list \<Rightarrow> error + point list" where
  "math_concat temp =
     (if temp = [] then Inl (ValueError ''need at least one array to concatenate'')
      else Inr (concat temp))"

definition math_stack :: "point list list \<Rightarrow> error + point list list" where
  "math_stack arrays =
     (case arrays of
        [] \<Rightarrow> Inl (ValueError ''need at least one array to stack'')
      | a # as \<Rightarrow>
          if list_all (\<lambda>x. length x = length a) as then Inr arrays
          else Inl (ValueError ''all input arrays must have the same shape''))"

text \<open>The outer loop \<open>for batch in range(batch_size)\<close>, building \<open>index_array\<close>.\<close>

fun batch_loop ::
  "density \<Rightarrow> int \<Rightarrow> string \<Rightarrow> (nat \<Rightarrow> real) \<Rightarrow> nat \<Rightarrow> nat list \<Rightarrow> error + point list list" where
  "batch_loop d k distribution rnd pos [] = Inr []"
| "batch_loop d k distribution rnd pos (batch # rest) =
     (let indices = to_float (math_where (spatial d) (channel0 d batch));
          (temp, pos') = emit distribution (nat k) indices (length (spatial d)) rnd pos
      in case math_concat temp of
           Inl e \<Rightarrow> Inl e
         | Inr pts \<Rightarrow>
             (case batch_loop d k distribution rnd pos' rest of
                Inl e \<Rightarrow> Inl e
              | Inr index_array \<Rightarrow> Inr (pts # index_array)))"

definition batch_size :: "density \<Rightarrow> nat" where
  "batch_size d = (case staticshape0 d of Some n \<Rightarrow> n | None \<Rightarrow> 1)"

definition distribute_points ::
  "density \<Rightarrow> int \<Rightarrow> string \<Rightarrow> (nat \<Rightarrow> real) \<Rightarrow> error + point list list" where
  "distribute_points d particles_per_cell distribution rnd =
     (if distribution \<noteq> ''center'' \<and> distribution \<noteq> ''uniform'' then Inl AssertionError
      else
        (case batch_loop d particles_per_cell distribution rnd 0 [0..<batch_size d] of
           Inl e \<Rightarrow> Inl e
         | Inr index_array \<Rightarrow>
             (case math_stack index_array of
                Inl (ValueError m) \<Rightarrow>
                  Inl (ValueError
                    ''all arrays in the batch must have the same number of active cells.'')
              | Inl e \<Rightarrow> Inl e
              | Inr stacked \<Rightarrow> Inr stacked)))"

section \<open>Concrete inputs\<close>

text \<open>A source of random numbers that is constantly zero.\<close>

definition zero_source :: "nat \<Rightarrow> real" where
  "zero_source i = 0"

text \<open>A density of two batches over two cells, with one active cell in batch 0 and two in
  batch 1: once with the static batch size 2, once with an unknown leading dimension.\<close>

definition two_cells :: "nat \<Rightarrow> real list" where
  "two_cells b = (if b = 0 then [1, 0] else [1, 1])"

definition density_static :: density where
  "density_static = \<lparr>staticshape0 = Some 2, spatial = [2], channel0 = two_cells\<rparr>"

definition density_dynamic :: density where
  "density_dynamic = \<lparr>staticshape0 = None, spatial = [2], channel0 = two_cells\<rparr>"

text \<open>An occupancy grid of one batch over two cells, the first of them active, and a box of
  extent 2 along every axis.\<close>

definition occupancy :: density where
  "occupancy = \<lparr>staticshape0 = Some 1, spatial = [2], channel0 = (\<lambda>b. [1, 0])\<rparr>"

definition box2 :: box where
  "box2 = \<lparr>global_to_local = map (\<lambda>x. x / 2)\<rparr>"

definition unit_box :: box where
  "unit_box = \<lparr>global_to_local = (\<lambda>p. p)\<rparr>"

section \<open>Properties of the point cloud\<close>

lemma load_name_valid_indices:
  "load_name [(''self'', a), (''box'', b), (''resolution'', c), (''closest_index'', d)]
     ''valid_indices'' = Inl (NameError ''valid_indices'')"
  by (simp add: load_name_def module_scope_def)

lemma grid_scatter_raises:
  "grid_scatter scatter self bx res =
     (case closest_index self bx res of
        Inl e \<Rightarrow> Inl e
      | Inr ci \<Rightarrow> Inl (NameError ''valid_indices''))"
  unfolding grid_scatter_def Let_def
  by (simp only: load_name_valid_indices sum.case split: sum.split)

text \<open>
  C3. \<open>sample_at\<close> hands the bounds and the resolution of a \<open>GridCell\<close> to
  \<open>_grid_scatter\<close> and returns what it returns; for every argument that is not a
  \<open>GridCell\<close> it raises \<open>NotImplementedError\<close> (the spec's \<open>UnsupportedGeometry\<close>) and
  computes nothing else.
\<close>

theorem sample_at_dispatch:
  "(is_GridCell pts \<longrightarrow>
      sample_at scatter self pts = grid_scatter scatter self (bounds pts) (resolution pts))
   \<and> (\<not> is_GridCell pts \<longrightarrow> sample_at scatter self pts = Inl NotImplementedError)"
  by (simp add: sample_at_def)

theorem sample_at_dispatch_witness:
  "is_GridCell (GridCell \<lparr>global_to_local = (\<lambda>p. p)\<rparr> [1])
   \<and> sample_at (\<lambda>ps ix vs sh m. Inr [])
        \<lparr>elements = Geometry [[1/2]], field_values = Scalar 1, extrapolation = ZERO,
         add_overlapping = True\<rparr>
        (GridCell \<lparr>global_to_local = (\<lambda>p. p)\<rparr> [1])
      = grid_scatter (\<lambda>ps ix vs sh m. Inr [])
        \<lparr>elements = Geometry [[1/2]], field_values = Scalar 1, extrapolation = ZERO,
         add_overlapping = True\<rparr>
        \<lparr>global_to_local = (\<lambda>p. p)\<rparr> [1]
   \<and> \<not> is_GridCell (PointTensor [[1/2]])
   \<and> sample_at (\<lambda>ps ix vs sh m. Inr [])
        \<lparr>elements = Geometry [[1/2]], field_values = Scalar 1, extrapolation = ZERO,
         add_overlapping = True\<rparr>
        (PointTensor [[1/2]])
      = Inl NotImplementedError"
  using sample_at_dispatch
          [of "GridCell \<lparr>global_to_local = (\<lambda>p. p)\<rparr> [1]" "\<lambda>ps ix vs sh m. Inr []"
              "\<lparr>elements = Geometry [[1/2]], field_values = Scalar 1, extrapolation = ZERO,
                add_overlapping = True\<rparr>"]
        sample_at_dispatch
          [of "PointTensor [[1/2]]" "\<lambda>ps ix vs sh m. Inr []"
              "\<lparr>elements = Geometry [[1/2]], field_values = Scalar 1, extrapolation = ZERO,
                add_overlapping = True\<rparr>"]
  by simp

text \<open>
  C4. \<open>mask\<close> builds a new \<open>PointCloud\<close> from the elements of the receiver, the scalar
  value 1, the extrapolation \<open>ZERO\<close> and \<open>add_overlapping = False\<close>, whatever the
  receiver's values, extrapolation and flag are. The construction cannot fail, since a
  scalar satisfies the count invariant; the receiver is an argument that is only read.
\<close>

theorem mask_result:
  "mask P = Inr \<lparr>elements = elements P, field_values = Scalar 1, extrapolation = ZERO,
                 add_overlapping = False\<rparr>"
  by (simp add: mask_def PointCloud_init_def SampledField_init_def count_invariant_def)


end
